theory Spec2Isabelle
  imports Main "HOL-Library.Sublist"
begin

section \<open>SEO URL checker: a shallow embedding of \<open>url_checker_app.py\<close>\<close>

text \<open>
  The program fetches a page, parses it and derives a record of SEO attributes
  (\<open>get_page_data\<close>), renders fields through small formatters
  (\<open>format_meta_content\<close>) and, in the batch flow, runs the extractor over the
  URL column of an uploaded table and computes summary counters.

  Python strings are modelled as \<open>string\<close>, one \<open>char\<close> per code point; code points
  above 255 are outside the model. Python integers are \<open>int\<close>. \<open>None\<close> is the
  \<open>None\<close> of an option type. An exception raised inside the \<open>try\<close> block is the
  \<open>Inl\<close> of a sum type, so each \<open>except\<close> clause is a branch of the model.
\<close>

subsection \<open>Python string primitives\<close>

text \<open>\<open>str.isspace\<close> on the code points below 256: TAB..CR, FS..US, space, NEL, NBSP.\<close>

definition isspace :: "char \<Rightarrow> bool" where
  "isspace c =
     (let n = (of_char c :: nat)
      in (9 \<le> n \<and> n \<le> 13) \<or> (28 \<le> n \<and> n \<le> 32) \<or> n = 133 \<or> n = 160)"

text \<open>\<open>s.strip()\<close>: leading and trailing whitespace removed.\<close>

definition strip :: "string \<Rightarrow> string" where
  "strip s = rev (dropWhile isspace (rev (dropWhile isspace s)))"

text \<open>\<open>s.rstrip('/')\<close>: every trailing slash removed.\<close>

definition rstrip_slash :: "string \<Rightarrow> string" where
  "rstrip_slash s = rev (dropWhile (\<lambda>c. c = CHR ''/'') (rev s))"

text \<open>
  \<open>s.lower()\<close> on the code points below 256: \<open>A..Z\<close> and the Latin-1 capitals
  \<open>0xC0..0xDE\<close> (without the multiplication sign \<open>0xD7\<close>) move up by 32.
\<close>

definition lower_char :: "char \<Rightarrow> char" where
  "lower_char c =
     (let n = (of_char c :: nat)
      in if (65 \<le> n \<and> n \<le> 90) \<or> (192 \<le> n \<and> n \<le> 222 \<and> n \<noteq> 215)
         then char_of (n + 32) else c)"

definition lower :: "string \<Rightarrow> string" where
  "lower s = map lower_char s"

text \<open>\<open>sub in s\<close> for strings: \<open>sub\<close> occurs as a contiguous slice of \<open>s\<close>.\<close>

fun str_in :: "string \<Rightarrow> string \<Rightarrow> bool" where
  "str_in sub [] = (sub = [])"
| "str_in sub (c # cs) = (prefix sub (c # cs) \<or> str_in sub cs)"

text \<open>Truthiness of a value that is \<open>None\<close> or a string: \<open>None\<close> and \<open>''\<close> are falsy.\<close>

fun truthy :: "string option \<Rightarrow> bool" where
  "truthy None = False"
| "truthy (Some s) = (s \<noteq> [])"

text \<open>\<open>str(n)\<close> for an integer: decimal digits, with a minus sign when negative.\<close>

definition digit_char :: "nat \<Rightarrow> char" where
  "digit_char d = char_of (48 + d)"

function str_nat :: "nat \<Rightarrow> string" where
  "str_nat n = (if n < 10 then [digit_char n] else str_nat (n div 10) @ [digit_char (n mod 10)])"
  by pat_completeness auto
termination
  by (relation "measure id") auto

declare str_nat.simps [simp del]

definition str_int :: "int \<Rightarrow> string" where
  "str_int i = (if i < 0 then CHR ''-'' # str_nat (nat (- i)) else str_nat (nat i))"

subsection \<open>Exceptions\<close>

text \<open>
  The two \<open>except\<close> clauses of \<open>get_page_data\<close> tell
  \<open>requests.exceptions.RequestException\<close> (timeout, DNS failure, refused connection,
  too many redirects, TLS error, invalid URL) from every other \<open>Exception\<close>. Each
  carries the text that \<open>str(e)\<close> returns. \<open>KeyboardInterrupt\<close> and \<open>SystemExit\<close>
  are not \<open>Exception\<close>s; they reach the function from outside and are not modelled.
\<close>

datatype exn = RequestException string | OtherException string

fun str_exn :: "exn \<Rightarrow> string" where
  "str_exn (RequestException msg) = msg"
| "str_exn (OtherException msg) = msg"

subsection \<open>The libraries the extractor calls\<close>

text \<open>
  \<open>requests\<close>, \<open>bs4\<close> and \<open>urllib.parse\<close> are not part of the repository. They are
  parameters of the model: a theorem about \<open>get_page_data\<close> holds for whatever these
  calls return or raise.

  A response carries the final status, the final (post-redirect) URL and the body.
  A tag found by \<open>soup.find\<close> carries its attributes (\<open>tag.get(name)\<close> is \<open>None\<close> for a
  missing attribute) and its text (\<open>tag.get_text()\<close>). A found tag is always truthy.
\<close>

record response =
  resp_status_code :: int
  resp_url :: string
  resp_content :: string

record tag =
  tag_attrs :: "(string \<times> string) list"
  tag_text :: string

definition tag_get :: "tag \<Rightarrow> string \<Rightarrow> string option" where
  "tag_get t name = map_of (tag_attrs t) name"

text \<open>
  \<open>requests_get\<close> is \<open>requests.get(url, headers=..., timeout=10, allow_redirects=True)\<close>:
  it reads and changes the world \<open>'w\<close> (the network) and returns a response or raises.
  \<open>BeautifulSoup\<close> is \<open>BeautifulSoup(content, 'html.parser')\<close>. \<open>soup_find\<close> is
  \<open>soup.find(name, attrs)\<close>, the first matching tag or \<open>None\<close>. \<open>urljoin\<close> is
  \<open>urllib.parse.urljoin\<close>, which raises \<open>ValueError\<close> on a malformed reference.
\<close>

record ('w, 's) library =
  requests_get :: "'w \<Rightarrow> string \<Rightarrow> (exn + response) \<times> 'w"
  BeautifulSoup :: "string \<Rightarrow> exn + 's"
  soup_find :: "'s \<Rightarrow> string \<Rightarrow> (string \<times> string) list \<Rightarrow> tag option"
  urljoin :: "string \<Rightarrow> string \<Rightarrow> exn + string"

subsection \<open>The result record\<close>

text \<open>\<open>status_code\<close> holds an integer on success and the string \<open>'Error'\<close> on failure.\<close>

datatype status = StatusInt int | StatusStr string

record analysis_result =
  url :: string
  status_code :: status
  canonical_url :: string
  is_self_referring :: bool
  noindex_found :: bool
  nofollow_found :: bool
  meta_title :: "string option"
  title_length :: int
  meta_description :: "string option"
  desc_length :: int
  error :: "string option"

subsection \<open>\<open>get_page_data\<close>\<close>

text \<open>Lines 75-76: the scheme is added when the input starts with neither prefix.\<close>

definition add_protocol :: "string \<Rightarrow> string" where
  "add_protocol u =
     (if \<not> (prefix ''http://'' u \<or> prefix ''https://'' u) then ''https://'' @ u else u)"

text \<open>
  Lines 90-100: the canonical link. A missing tag, a missing \<open>href\<close> and an empty
  \<open>href\<close> all take the \<open>else\<close> branch. The reference is joined to the requested
  URL and compared with the final URL of the response.
\<close>

definition canonical_step ::
  "('w, 's) library \<Rightarrow> string \<Rightarrow> response \<Rightarrow> 's \<Rightarrow> exn + (string \<times> bool)" where
  "canonical_step lib u resp soup =
     (let canonical_tag = soup_find lib soup ''link'' [(''rel'', ''canonical'')];
          canonical_url0 = (case canonical_tag of Some t \<Rightarrow> tag_get t ''href'' | None \<Rightarrow> None)
      in if truthy canonical_url0
         then (case urljoin lib u (the canonical_url0) of
                 Inl e \<Rightarrow> Inl e
               | Inr joined \<Rightarrow>
                   Inr (joined, rstrip_slash joined = rstrip_slash (resp_url resp)))
         else Inr (''Not found'', False))"

text \<open>Lines 103-113: the robots meta tag; a missing \<open>content\<close> reads as \<open>''\<close>.\<close>

definition robots_step :: "('w, 's) library \<Rightarrow> 's \<Rightarrow> bool \<times> bool" where
  "robots_step lib soup =
     (case soup_find lib soup ''meta'' [(''name'', ''robots'')] of
        None \<Rightarrow> (False, False)
      | Some robots_meta \<Rightarrow>
          (let content = lower (case tag_get robots_meta ''content'' of
                                  None \<Rightarrow> [] | Some v \<Rightarrow> v)
           in (str_in ''noindex'' content, str_in ''nofollow'' content)))"

text \<open>Lines 116-118: the title, trimmed; its length is 0 when it is falsy.\<close>

definition title_step :: "('w, 's) library \<Rightarrow> 's \<Rightarrow> string option \<times> int" where
  "title_step lib soup =
     (let meta_title0 = (case soup_find lib soup ''title'' [] of
                           Some title_tag \<Rightarrow> Some (strip (tag_text title_tag))
                         | None \<Rightarrow> None)
      in (meta_title0,
          if truthy meta_title0 then int (length (the meta_title0)) else 0))"

text \<open>
  Lines 121-123: the description. \<open>desc_tag.get('content')\<close> has no default, so on a
  tag without \<open>content\<close> the call \<open>.strip()\<close> is made on \<open>None\<close> and raises
  \<open>AttributeError\<close>.
\<close>

definition none_has_no_strip :: string where
  "none_has_no_strip =
     CHR 0x27 # ''NoneType'' @ CHR 0x27 # '' object has no attribute '' @ CHR 0x27 # ''strip'' @ [CHR 0x27]"

definition description_step :: "('w, 's) library \<Rightarrow> 's \<Rightarrow> exn + (string option \<times> int)" where
  "description_step lib soup =
     (case soup_find lib soup ''meta'' [(''name'', ''description'')] of
        None \<Rightarrow> Inr (None, 0)
      | Some desc_tag \<Rightarrow>
          (case tag_get desc_tag ''content'' of
             None \<Rightarrow> Inl (OtherException none_has_no_strip)
           | Some v \<Rightarrow>
               (let meta_description0 = strip v
                in Inr (Some meta_description0,
                        if meta_description0 \<noteq> [] then int (length meta_description0) else 0))))"

text \<open>
  Lines 73-137: the \<open>try\<close> block. The first exception ends it. The world changes only
  at the request.
\<close>

definition extract_fields ::
  "('w, 's) library \<Rightarrow> string \<Rightarrow> response \<Rightarrow> 's \<Rightarrow> exn + analysis_result" where
  "extract_fields lib u resp soup =
     (case canonical_step lib u resp soup of
        Inl e \<Rightarrow> Inl e
      | Inr (canonical, self_referring) \<Rightarrow>
          (let (noindex, nofollow) = robots_step lib soup;
               (title, tlen) = title_step lib soup
           in case description_step lib soup of
                Inl e \<Rightarrow> Inl e
              | Inr (description, dlen) \<Rightarrow>
                  Inr \<lparr>url = u,
                       status_code = StatusInt (resp_status_code resp),
                       canonical_url = canonical,
                       is_self_referring = self_referring,
                       noindex_found = noindex,
                       nofollow_found = nofollow,
                       meta_title = title,
                       title_length = tlen,
                       meta_description = description,
                       desc_length = dlen,
                       error = None\<rparr>))"

definition get_page_data_try ::
  "('w, 's) library \<Rightarrow> 'w \<Rightarrow> string \<Rightarrow> (exn + analysis_result) \<times> 'w" where
  "get_page_data_try lib w url0 =
     (let u = add_protocol url0;
          (fetched, w') = requests_get lib w u
      in (case fetched of
            Inl e \<Rightarrow> Inl e
          | Inr resp \<Rightarrow>
              (case BeautifulSoup lib (resp_content resp) of
                 Inl e \<Rightarrow> Inl e
               | Inr soup \<Rightarrow> extract_fields lib u resp soup),
          w'))"

text \<open>
  Lines 139-166: the two handlers build the same record. The variable \<open>url\<close> they
  read was reassigned at line 76, so it holds the URL with the scheme added.
\<close>

definition failure_record :: "string \<Rightarrow> string \<Rightarrow> analysis_result" where
  "failure_record u msg =
     \<lparr>url = u,
      status_code = StatusStr ''Error'',
      canonical_url = ''Error'',
      is_self_referring = False,
      noindex_found = False,
      nofollow_found = False,
      meta_title = None,
      title_length = 0,
      meta_description = None,
      desc_length = 0,
      error = Some msg\<rparr>"

definition get_page_data ::
  "('w, 's) library \<Rightarrow> 'w \<Rightarrow> string \<Rightarrow> analysis_result \<times> 'w" where
  "get_page_data lib w url0 =
     (case get_page_data_try lib w url0 of
        (Inr result, w') \<Rightarrow> (result, w')
      | (Inl (RequestException msg), w') \<Rightarrow>
          (failure_record (add_protocol url0) (str_exn (RequestException msg)), w')
      | (Inl (OtherException msg), w') \<Rightarrow>
          (failure_record (add_protocol url0) (str_exn (OtherException msg)), w'))"

subsection \<open>\<open>format_meta_content\<close>\<close>

text \<open>Lines 202-215: the class of the length badge.\<close>

definition length_color :: "string \<Rightarrow> int \<Rightarrow> string" where
  "length_color field_name len =
     (if field_name = ''title''
      then (if 30 \<le> len \<and> len \<le> 60 then ''tag-good''
            else if len < 30 \<or> len > 60 then ''tag-warning''
            else ''tag-warning'')
      else (if 120 \<le> len \<and> len \<le> 160 then ''tag-good''
            else if len < 120 \<or> len > 160 then ''tag-warning''
            else ''tag-warning''))"

text \<open>The cross mark that starts the missing-field marker (U+274C, here as its UTF-8 bytes).\<close>

definition cross_mark :: string where
  "cross_mark = [CHR 0xE2, CHR 0x9D, CHR 0x8C]"

definition missing_marker :: "string \<Rightarrow> string" where
  \<open>missing_marker field_name =
     ''<span class="error-message">'' @ cross_mark @ '' Missing '' @ field_name @ ''</span>''\<close>

definition length_badge :: "string \<Rightarrow> int \<Rightarrow> string" where
  \<open>length_badge color len =
     '' <span class="'' @ color @ ''">('' @ str_int len @ '' chars)</span>''\<close>

text \<open>Lines 198-219. \<open>if content:\<close> is false for \<open>None\<close> and for the empty string.\<close>

definition format_meta_content :: "string option \<Rightarrow> int \<Rightarrow> string \<Rightarrow> string" where
  "format_meta_content content len field_name =
     (if truthy content
      then take 100 (the content)
           @ (if length (the content) > 100 then ''...'' else [])
           @ length_badge (length_color field_name len) len
      else missing_marker field_name)"

subsection \<open>The batch flow\<close>

text \<open>
  The table that \<open>pd.read_csv\<close> returns: columns in order, each a header and its cells.
  A cell that pandas reads as missing (NaN) is \<open>None\<close>; every other cell of a URL
  column is a string. Headers are distinct, as pandas makes them.
\<close>

type_synonym dataframe = "(string \<times> string option list) list"

definition url_column_names :: "string list" where
  "url_column_names = [''url'', ''urls'', ''link'', ''links'']"

text \<open>Lines 315-319: the first column whose lower-cased header is a URL header.\<close>

definition find_url_column :: "dataframe \<Rightarrow> (string \<times> string option list) option" where
  "find_url_column df = List.find (\<lambda>(col, cells). lower col \<in> set url_column_names) df"

text \<open>\<open>.dropna().tolist()\<close>: the cells that are not missing, in order.\<close>

fun dropna :: "string option list \<Rightarrow> string list" where
  "dropna [] = []"
| "dropna (None # cells) = dropna cells"
| "dropna (Some v # cells) = v # dropna cells"

text \<open>
  Lines 328-337: the loop appends one result per URL. The progress display and the pause
  of half a second between requests do not enter the results.
\<close>

fun analyze_loop ::
  "('w, 's) library \<Rightarrow> string list \<Rightarrow> analysis_result list \<times> 'w \<Rightarrow> analysis_result list \<times> 'w" where
  "analyze_loop lib [] (results, w) = (results, w)"
| "analyze_loop lib (u # urls) (results, w) =
     (let (result, w') = get_page_data lib w u
      in analyze_loop lib urls (results @ [result], w'))"

text \<open>Lines 321-337: no URL column is reported and nothing is analysed.\<close>

definition batch_flow ::
  "('w, 's) library \<Rightarrow> 'w \<Rightarrow> dataframe \<Rightarrow> (analysis_result list \<times> 'w) option" where
  "batch_flow lib w df =
     (case find_url_column df of
        None \<Rightarrow> None
      | Some (url_column, cells) \<Rightarrow> Some (analyze_loop lib (dropna cells) ([], w)))"

text \<open>Lines 390-402: the summary counters.\<close>

definition success_count :: "analysis_result list \<Rightarrow> nat" where
  "success_count results = length [r \<leftarrow> results. status_code r = StatusInt 200]"

definition canonical_issues :: "analysis_result list \<Rightarrow> nat" where
  "canonical_issues results =
     length [r \<leftarrow> results. \<not> is_self_referring r \<and> canonical_url r \<noteq> ''Not found'']"

definition noindex_count :: "analysis_result list \<Rightarrow> nat" where
  "noindex_count results = length [r \<leftarrow> results. noindex_found r]"


subsection \<open>A small network and page for concrete runs\<close>

text \<open>
  A page is given by what \<open>soup.find\<close> returns for each query; the network answers a
  request by URL. \<open>urljoin_sample\<close> agrees with \<open>urllib.parse.urljoin\<close> on the
  references used below: an empty reference gives the base, the reference \<open>http://[\<close>
  raises \<open>ValueError('Invalid IPv6 URL')\<close>, and an absolute URL without dot segments
  is returned as it is.
\<close>

type_synonym page = "((string \<times> (string \<times> string) list) \<times> tag) list"

definition urljoin_sample :: "string \<Rightarrow> string \<Rightarrow> exn + string" where
  "urljoin_sample base ref =
     (if ref = [] then Inr base
      else if ref = ''http://['' then Inl (OtherException ''Invalid IPv6 URL'')
      else Inr ref)"

definition sample_library :: "(string \<Rightarrow> exn + response) \<Rightarrow> page \<Rightarrow> (unit, page) library" where
  "sample_library net pg =
     \<lparr>requests_get = (\<lambda>w u. (net u, w)),
      BeautifulSoup = (\<lambda>content. Inr pg),
      soup_find = (\<lambda>soup name attrs. map_of soup (name, attrs)),
      urljoin = urljoin_sample\<rparr>"

definition ok_response :: "int \<Rightarrow> string \<Rightarrow> exn + response" where
  "ok_response code u = Inr \<lparr>resp_status_code = code, resp_url = u, resp_content = []\<rparr>"

text \<open>A network on which every request times out.\<close>

definition failing_net :: "string \<Rightarrow> exn + response" where
  "failing_net u = Inl (RequestException ''Connection timed out'')"

text \<open>Pages, each given by the tags that \<open>soup.find\<close> returns.\<close>

definition page_description_without_content :: page where
  "page_description_without_content =
     [((''meta'', [(''name'', ''description'')]),
       \<lparr>tag_attrs = [(''name'', ''description'')], tag_text = []\<rparr>)]"


definition page_bad_href :: page where
  "page_bad_href =
     [((''link'', [(''rel'', ''canonical'')]),
       \<lparr>tag_attrs = [(''rel'', ''canonical''), (''href'', ''http://['')], tag_text = []\<rparr>)]"

definition page_self_canonical :: page where
  "page_self_canonical =
     [((''link'', [(''rel'', ''canonical'')]),
       \<lparr>tag_attrs = [(''rel'', ''canonical''), (''href'', ''https://example.com/'')],
        tag_text = []\<rparr>)]"


text \<open>An uploaded table with a mixed-case URL header and one missing cell.\<close>

definition sample_table :: dataframe where
  "sample_table =
     [(''id'', [Some ''1'', Some ''2'', Some ''3'']),
      (''Link'', [Some ''a.com'', None, Some ''https://b.org''])]"


section \<open>Properties\<close>

subsection \<open>Shared facts about the extractor\<close>

lemma extract_fields_Inr:
  assumes "extract_fields lib u resp soup = Inr r"
  shows "error r = None" and "url r = u" and "status_code r = StatusInt (resp_status_code resp)"
  using assms
  by (auto simp: extract_fields_def split: sum.splits prod.splits)

lemma get_page_data_try_Inr:
  assumes "fst (get_page_data_try lib w u) = Inr r"
  shows "error r = None" and "url r = add_protocol u"
  using assms extract_fields_Inr [of lib "add_protocol u" _ _ r]
  by (auto simp: get_page_data_try_def Let_def split: sum.splits prod.splits)

lemma get_page_data_unfold:
  "get_page_data lib w u =
     (case fst (get_page_data_try lib w u) of
        Inr r \<Rightarrow> r
      | Inl e \<Rightarrow> failure_record (add_protocol u) (str_exn e),
      snd (get_page_data_try lib w u))"
  by (cases "get_page_data_try lib w u")
     (auto simp: get_page_data_def split: sum.splits exn.splits)

lemma failure_record_sel [simp]:
  "url (failure_record u m) = u"
  "status_code (failure_record u m) = StatusStr ''Error''"
  "canonical_url (failure_record u m) = ''Error''"
  "is_self_referring (failure_record u m) = False"
  "noindex_found (failure_record u m) = False"
  "nofollow_found (failure_record u m) = False"
  "meta_title (failure_record u m) = None"
  "title_length (failure_record u m) = 0"
  "meta_description (failure_record u m) = None"
  "desc_length (failure_record u m) = 0"
  "error (failure_record u m) = Some m"
  by (simp_all add: failure_record_def)

lemma get_page_data_url: "url (fst (get_page_data lib w u)) = add_protocol u"
  using get_page_data_try_Inr(2) [of lib w u]
  by (auto simp: get_page_data_unfold split: sum.splits)


lemma get_page_data_failure:
  assumes "error (fst (get_page_data lib w u)) \<noteq> None"
  shows "\<exists>e. fst (get_page_data lib w u) = failure_record (add_protocol u) (str_exn e)"
proof (cases "fst (get_page_data_try lib w u)")
  case (Inl e)
  then have "fst (get_page_data lib w u) = failure_record (add_protocol u) (str_exn e)"
    by (simp add: get_page_data_unfold)
  then show ?thesis ..
next
  case (Inr r)
  then have "error (fst (get_page_data lib w u)) = None"
    by (simp add: get_page_data_unfold get_page_data_try_Inr(1))
  with assms show ?thesis by simp
qed

lemma extract_fields_status:
  "extract_fields lib u (resp\<lparr>resp_status_code := c\<rparr>) soup =
     (case extract_fields lib u resp soup of
        Inl e \<Rightarrow> Inl e
      | Inr r \<Rightarrow> Inr (r\<lparr>status_code := StatusInt c\<rparr>))"
  by (auto simp: extract_fields_def canonical_step_def Let_def split: sum.splits prod.splits)

lemmas sample_run_defs =
  get_page_data_unfold get_page_data_try_def extract_fields_def canonical_step_def
  robots_step_def title_step_def description_step_def sample_library_def ok_response_def
  urljoin_sample_def add_protocol_def tag_get_def failure_record_def Let_def

subsection \<open>Shared facts about strings, the loop and the counters\<close>



lemma dropna_filter: "dropna cells = map the [c \<leftarrow> cells. c \<noteq> None]"
  by (induction cells rule: dropna.induct) simp_all

lemma find_SomeD: "List.find P xs = Some x \<Longrightarrow> x \<in> set xs \<and> P x"
  by (induction xs) (auto split: if_splits)

lemma find_url_column_Some:
  assumes "(col, cells) \<in> set df" and "lower col \<in> set url_column_names"
  obtains col' cells' where "find_url_column df = Some (col', cells')"
    and "(col', cells') \<in> set df" and "lower col' \<in> set url_column_names"
proof -
  from assms have "find_url_column df \<noteq> None"
    unfolding find_url_column_def by (auto simp: find_None_iff)
  then obtain col' cells' where f: "find_url_column df = Some (col', cells')"
    by (cases "find_url_column df") auto
  then have "(col', cells') \<in> set df" "lower col' \<in> set url_column_names"
    unfolding find_url_column_def by (auto dest: find_SomeD)
  with f that show ?thesis by blast
qed

text \<open>The loop appends, in order, one record per URL, each the extractor's answer for it.\<close>

lemma analyze_loop_append:
  "\<exists>rs w'. analyze_loop lib urls (acc, w) = (acc @ rs, w')
     \<and> list_all2 (\<lambda>r u. \<exists>wi. r = fst (get_page_data lib wi u)) rs urls"
proof (induction urls arbitrary: acc w)
  case Nil
  then show ?case by simp
next
  case (Cons u urls)
  obtain r w1 where step: "get_page_data lib w u = (r, w1)"
    by (cases "get_page_data lib w u")
  from Cons.IH [of "acc @ [r]" w1] obtain rs w' where
    rest: "analyze_loop lib urls (acc @ [r], w1) = ((acc @ [r]) @ rs, w')"
    and each: "list_all2 (\<lambda>r u. \<exists>wi. r = fst (get_page_data lib wi u)) rs urls"
    by blast
  from step have "r = fst (get_page_data lib w u)" by simp
  then have "\<exists>wi. r = fst (get_page_data lib wi u)" by blast
  with step rest each show ?case
    by (intro exI [of _ "r # rs"] exI [of _ w']) simp
qed

lemma canonical_issues_Cons:
  "canonical_issues (r # rs) =
     (if \<not> is_self_referring r \<and> canonical_url r \<noteq> ''Not found'' then 1 else 0)
       + canonical_issues rs"
  by (simp add: canonical_issues_def)

lemma canonical_issues_append:
  "canonical_issues (xs @ ys) = canonical_issues xs + canonical_issues ys"
  by (simp add: canonical_issues_def)

lemma canonical_issues_failure: "canonical_issues [failure_record v m] = 1"
  by (simp add: canonical_issues_def)


subsection \<open>C1: the extractor never raises\<close>

text \<open>
  C1. For every input string, \<open>get_page_data\<close> returns a complete record (and the
  world after the request). When the \<open>try\<close> block ends normally the record is the one
  it built, with no error. When it ends with an exception, of either kind and from any
  step, the record is the failure record and its \<open>error\<close> field holds \<open>str(e)\<close>: the
  exception does not leave the function.
\<close>

theorem get_page_data_never_raises:
  "\<exists>r w'. get_page_data lib w u = (r, w') \<and> w' = snd (get_page_data_try lib w u) \<and>
     (case fst (get_page_data_try lib w u) of
        Inr r0 \<Rightarrow> r = r0 \<and> error r = None
      | Inl e \<Rightarrow> r = failure_record (add_protocol u) (str_exn e) \<and> error r = Some (str_exn e))"
  using get_page_data_try_Inr(1) [of lib w u]
  by (auto simp: get_page_data_unfold split: sum.splits)

theorem get_page_data_never_raises_witness:
  "\<exists>r w'. get_page_data (sample_library failing_net []) () ''example.com'' = (r, w')
     \<and> error r = Some ''Connection timed out''"
  using get_page_data_never_raises [of "sample_library failing_net []" "()" "''example.com''"]
  by (simp add: get_page_data_try_def sample_library_def failing_net_def Let_def)

subsection \<open>C2: the record of a transport failure\<close>

text \<open>
  C2. When the request raises a \<open>RequestException\<close> (timeout, DNS failure, refused
  connection, too many redirects, TLS error), the record has \<open>error\<close> set to the text
  of the exception, \<open>status_code\<close> and \<open>canonical_url\<close> equal to \<open>'Error'\<close>, the three
  booleans false, title and description absent and both lengths 0; \<open>status_code\<close> is
  never an integer.
\<close>

theorem transport_failure_record:
  assumes "fst (requests_get lib w (add_protocol u)) = Inl (RequestException msg)"
  shows "fst (get_page_data lib w u) =
           \<lparr>url = add_protocol u, status_code = StatusStr ''Error'', canonical_url = ''Error'',
            is_self_referring = False, noindex_found = False, nofollow_found = False,
            meta_title = None, title_length = 0, meta_description = None, desc_length = 0,
            error = Some msg\<rparr>
         \<and> (\<forall>n. status_code (fst (get_page_data lib w u)) \<noteq> StatusInt n)"
  using assms
  by (auto simp: get_page_data_unfold get_page_data_try_def failure_record_def Let_def
           split: prod.splits)

theorem transport_failure_record_witness:
  "fst (get_page_data (sample_library failing_net []) () ''example.com'') =
     \<lparr>url = ''https://example.com'', status_code = StatusStr ''Error'', canonical_url = ''Error'',
      is_self_referring = False, noindex_found = False, nofollow_found = False,
      meta_title = None, title_length = 0, meta_description = None, desc_length = 0,
      error = Some ''Connection timed out''\<rparr>"
proof -
  have net: "fst (requests_get (sample_library failing_net []) () (add_protocol ''example.com''))
               = Inl (RequestException ''Connection timed out'')"
    by (simp add: sample_library_def failing_net_def)
  have "add_protocol ''example.com'' = ''https://example.com''"
    by (simp add: add_protocol_def)
  with transport_failure_record [OF net] show ?thesis
    by simp
qed

subsection \<open>C3: a description tag without \<open>content\<close>\<close>

text \<open>
  C3. The page is fetched with status 200 and holds a \<open><meta name="description">\<close> tag
  with no \<open>content\<close> attribute and nothing else. \<open>desc_tag.get('content')\<close> is \<open>None\<close>,
  \<open>.strip()\<close> on it raises \<open>AttributeError\<close>, and the second handler returns the
  failure record: \<open>error\<close> is set, and \<open>status_code\<close> is \<open>'Error'\<close> although the server
  answered 200. The robots step beside it reads the same attribute with a default
  (\<open>get('content', '')\<close>) and does not fail.
\<close>

theorem description_without_content_is_failure:
  "fst (get_page_data (sample_library (ok_response 200) page_description_without_content) ()
          ''https://example.com'')
     = failure_record ''https://example.com'' none_has_no_strip
   \<and> error (fst (get_page_data (sample_library (ok_response 200) page_description_without_content)
                  () ''https://example.com'')) \<noteq> None
   \<and> status_code (fst (get_page_data (sample_library (ok_response 200)
                  page_description_without_content) () ''https://example.com''))
       = StatusStr ''Error''"
  by (simp add: sample_run_defs page_description_without_content_def)

subsection \<open>C4: the canonical link\<close>




subsection \<open>C5: a 4xx or 5xx status\<close>

text \<open>
  C5. A response with a 4xx or 5xx status, on a body whose extraction raises no
  exception, is not a failure: the record is the one the same body gives under status
  200 with \<open>status_code\<close> replaced by the integer of the response, and \<open>error\<close> is absent.
\<close>

theorem http_error_status_is_not_a_failure:
  assumes fetch: "requests_get lib w (add_protocol u) = (Inr resp, w')"
      and status: "400 \<le> resp_status_code resp" "resp_status_code resp < 600"
      and parse: "BeautifulSoup lib (resp_content resp) = Inr soup"
      and body: "extract_fields lib (add_protocol u) (resp\<lparr>resp_status_code := 200\<rparr>) soup
                   = Inr r200"
  shows "get_page_data lib w u = (r200\<lparr>status_code := StatusInt (resp_status_code resp)\<rparr>, w')
         \<and> status_code (fst (get_page_data lib w u)) = StatusInt (resp_status_code resp)
         \<and> error (fst (get_page_data lib w u)) = None"
proof -
  from body obtain r where r: "extract_fields lib (add_protocol u) resp soup = Inr r"
    and r200: "r200 = r\<lparr>status_code := StatusInt 200\<rparr>"
    by (auto simp: extract_fields_status split: sum.splits)
  from r fetch parse have "get_page_data lib w u = (r, w')"
    by (simp add: get_page_data_unfold get_page_data_try_def Let_def)
  moreover from r have "status_code r = StatusInt (resp_status_code resp)" "error r = None"
    by (simp_all add: extract_fields_Inr)
  ultimately show ?thesis
    by (simp add: r200)
qed

theorem http_error_status_is_not_a_failure_witness:
  "get_page_data (sample_library (ok_response 404) page_self_canonical) () ''example.com'' =
     (\<lparr>url = ''https://example.com'', status_code = StatusInt 404,
       canonical_url = ''https://example.com/'', is_self_referring = True,
       noindex_found = False, nofollow_found = False, meta_title = None, title_length = 0,
       meta_description = None, desc_length = 0, error = None\<rparr>, ())"
proof -
  let ?lib = "sample_library (ok_response 404) page_self_canonical"
  let ?resp = "\<lparr>resp_status_code = 404, resp_url = ''https://example.com'', resp_content = []\<rparr>"
  let ?r200 = "\<lparr>url = ''https://example.com'', status_code = StatusInt 200,
       canonical_url = ''https://example.com/'', is_self_referring = True,
       noindex_found = False, nofollow_found = False, meta_title = None, title_length = 0,
       meta_description = None, desc_length = 0, error = None\<rparr>"
  have fetch: "requests_get ?lib () (add_protocol ''example.com'') = (Inr ?resp, ())"
    by (simp add: sample_library_def ok_response_def add_protocol_def)
  have status: "400 \<le> resp_status_code ?resp" "resp_status_code ?resp < 600"
    by simp_all
  have parse: "BeautifulSoup ?lib (resp_content ?resp) = Inr page_self_canonical"
    by (simp add: sample_library_def)
  have body: "extract_fields ?lib (add_protocol ''example.com'') (?resp\<lparr>resp_status_code := 200\<rparr>)
                page_self_canonical = Inr ?r200"
    by (simp add: sample_run_defs page_self_canonical_def rstrip_slash_def)
  from http_error_status_is_not_a_failure [OF fetch status parse body] show ?thesis
    by simp
qed

text \<open>
  A 404 response whose canonical \<open>href\<close> is \<open>http://[\<close>: \<open>urljoin\<close> raises
  \<open>ValueError\<close>, the second handler catches it, and the record is a failure record.
\<close>

theorem http_error_status_counterexample:
  "fst (requests_get (sample_library (ok_response 404) page_bad_href) () ''https://example.com'')
       = Inr \<lparr>resp_status_code = 404, resp_url = ''https://example.com'', resp_content = []\<rparr>
   \<and> fst (get_page_data (sample_library (ok_response 404) page_bad_href) () ''https://example.com'')
       = failure_record ''https://example.com'' ''Invalid IPv6 URL''
   \<and> status_code (fst (get_page_data (sample_library (ok_response 404) page_bad_href) ()
                        ''https://example.com'')) \<noteq> StatusInt 404
   \<and> error (fst (get_page_data (sample_library (ok_response 404) page_bad_href) ()
                        ''https://example.com'')) \<noteq> None"
  by (simp add: sample_run_defs page_bad_href_def)

subsection \<open>C6: one result per URL of the column\<close>

text \<open>
  C6. When the table has a column whose lower-cased header is \<open>url\<close>, \<open>urls\<close>, \<open>link\<close>
  or \<open>links\<close>, the batch flow takes the first such column and returns one record per
  cell of it that is not missing, in the order of the rows: there are as many records as
  such cells, the i-th record is what \<open>get_page_data\<close> returned for the i-th such cell,
  and its \<open>url\<close> field is that cell with the scheme added. Missing cells give no record.
\<close>

theorem batch_one_result_per_url:
  assumes "(col, cells) \<in> set df" and "lower col \<in> set url_column_names"
  shows "\<exists>col' cells' results w'.
           find_url_column df = Some (col', cells')
         \<and> (col', cells') \<in> set df \<and> lower col' \<in> set url_column_names
         \<and> batch_flow lib w df = Some (results, w')
         \<and> length results = length [c \<leftarrow> cells'. c \<noteq> None]
         \<and> list_all2 (\<lambda>r u. \<exists>wi. r = fst (get_page_data lib wi u))
               results (map the [c \<leftarrow> cells'. c \<noteq> None])
         \<and> map url results = map add_protocol (map the [c \<leftarrow> cells'. c \<noteq> None])"
proof -
  from assms obtain col' cells' where f: "find_url_column df = Some (col', cells')"
    and mem: "(col', cells') \<in> set df" "lower col' \<in> set url_column_names"
    by (rule find_url_column_Some)
  obtain rs w' where run: "analyze_loop lib (dropna cells') ([], w) = (rs, w')"
    and each: "list_all2 (\<lambda>r u. \<exists>wi. r = fst (get_page_data lib wi u)) rs (dropna cells')"
    using analyze_loop_append [of lib "dropna cells'" "[]" w] by auto
  from each have len: "length rs = length (dropna cells')"
    by (rule list_all2_lengthD)
  from each have urls: "map url rs = map add_protocol (dropna cells')"
    by (induction rule: list_all2_induct) (auto simp: get_page_data_url)
  from f run have "batch_flow lib w df = Some (rs, w')"
    by (simp add: batch_flow_def)
  with f mem each len urls show ?thesis
    by (simp add: dropna_filter)
qed

theorem batch_one_result_per_url_witness:
  "\<exists>results w'. batch_flow (sample_library failing_net []) () sample_table = Some (results, w')
     \<and> length results = 2
     \<and> map url results = [''https://a.com'', ''https://b.org'']"
proof -
  have col: "(''Link'', [Some ''a.com'', None, Some ''https://b.org'']) \<in> set sample_table"
    by (simp add: sample_table_def)
  have name: "lower ''Link'' \<in> set url_column_names"
    by code_simp
  have found: "find_url_column sample_table
                 = Some (''Link'', [Some ''a.com'', None, Some ''https://b.org''])"
    by code_simp
  from batch_one_result_per_url [OF col name, of "sample_library failing_net []" "()"]
  show ?thesis
    by (auto simp: found add_protocol_def)
qed

subsection \<open>C7: the canonical-issues counter\<close>

text \<open>
  C7. The counter is the number of records that are not self-referring and whose
  \<open>canonical_url\<close> is not \<open>'Not found'\<close>. The value \<open>'Error'\<close> of a failure record is not
  excluded: the counter is the number of records with an existing canonical URL that is
  not self-referring plus the number of not self-referring records whose \<open>canonical_url\<close>
  is \<open>'Error'\<close>, and every failure record that \<open>get_page_data\<close> returns adds one to it.
\<close>

theorem canonical_issues_counts:
  "canonical_issues results =
     length [r \<leftarrow> results. \<not> is_self_referring r \<and> canonical_url r \<noteq> ''Not found''
                               \<and> canonical_url r \<noteq> ''Error'']
       + length [r \<leftarrow> results. \<not> is_self_referring r \<and> canonical_url r = ''Error'']
   \<and> (error (fst (get_page_data lib w u)) \<noteq> None \<longrightarrow>
        canonical_issues (before @ fst (get_page_data lib w u) # after)
          = canonical_issues before + 1 + canonical_issues after)"
proof
  show "canonical_issues results =
     length [r \<leftarrow> results. \<not> is_self_referring r \<and> canonical_url r \<noteq> ''Not found''
                               \<and> canonical_url r \<noteq> ''Error'']
       + length [r \<leftarrow> results. \<not> is_self_referring r \<and> canonical_url r = ''Error'']"
    by (induction results) (auto simp: canonical_issues_Cons, simp add: canonical_issues_def)
next
  show "error (fst (get_page_data lib w u)) \<noteq> None \<longrightarrow>
        canonical_issues (before @ fst (get_page_data lib w u) # after)
          = canonical_issues before + 1 + canonical_issues after"
  proof
    assume failed: "error (fst (get_page_data lib w u)) \<noteq> None"
    from get_page_data_failure [OF failed]
    obtain e where r: "fst (get_page_data lib w u) = failure_record (add_protocol u) (str_exn e)" ..
    have "canonical_issues (before @ fst (get_page_data lib w u) # after)
            = canonical_issues before
              + (canonical_issues [fst (get_page_data lib w u)] + canonical_issues after)"
      using canonical_issues_append [of before "[fst (get_page_data lib w u)] @ after"]
            canonical_issues_append [of "[fst (get_page_data lib w u)]" after]
      by simp
    then show "canonical_issues (before @ fst (get_page_data lib w u) # after)
          = canonical_issues before + 1 + canonical_issues after"
      unfolding r by (simp add: canonical_issues_failure)
  qed
qed

theorem canonical_issues_counts_witness:
  "canonical_issues [fst (get_page_data (sample_library (ok_response 200) []) () ''example.com''),
                     fst (get_page_data (sample_library failing_net []) () ''example.com'')] = 1"
proof -
  have failed: "error (fst (get_page_data (sample_library failing_net []) () ''example.com'')) \<noteq> None"
    by (simp add: sample_run_defs failing_net_def)
  have ok: "canonical_issues
              [fst (get_page_data (sample_library (ok_response 200) []) () ''example.com'')] = 0"
    by (simp add: canonical_issues_def sample_run_defs)
  from canonical_issues_counts
         [of "[]" "sample_library failing_net []" "()" "''example.com''"
             "[fst (get_page_data (sample_library (ok_response 200) []) () ''example.com'')]" "[]"]
  have "canonical_issues
          ([fst (get_page_data (sample_library (ok_response 200) []) () ''example.com'')]
            @ fst (get_page_data (sample_library failing_net []) () ''example.com'') # [])
        = canonical_issues
            [fst (get_page_data (sample_library (ok_response 200) []) () ''example.com'')]
          + 1 + canonical_issues []"
    using failed by blast
  then show ?thesis
    unfolding ok by (simp add: canonical_issues_def)
qed

text \<open>
  One failed fetch: no record has an existing canonical URL, and the counter is 1.
\<close>

theorem canonical_issues_counterexample:
  "error (fst (get_page_data (sample_library failing_net []) () ''example.com''))
     = Some ''Connection timed out''
   \<and> canonical_issues [fst (get_page_data (sample_library failing_net []) () ''example.com'')] = 1
   \<and> length [r \<leftarrow> [fst (get_page_data (sample_library failing_net []) () ''example.com'')].
               \<not> is_self_referring r \<and> canonical_url r \<noteq> ''Not found''
               \<and> canonical_url r \<noteq> ''Error''] = 0"
  by (simp add: sample_run_defs failing_net_def canonical_issues_def)

subsection \<open>C8: the \<open>url\<close> field\<close>

text \<open>
  C8. On success and on failure alike the \<open>url\<close> field holds the input with the scheme
  added: the input itself when it starts with \<open>http://\<close> or \<open>https://\<close>, and
  \<open>https://\<close> followed by the input otherwise. So it equals the input exactly when the
  input already carries a scheme.
\<close>

theorem url_field_is_normalized:
  "url (fst (get_page_data lib w u)) = add_protocol u
   \<and> add_protocol u = (if prefix ''http://'' u \<or> prefix ''https://'' u then u else ''https://'' @ u)
   \<and> (url (fst (get_page_data lib w u)) = u) = (prefix ''http://'' u \<or> prefix ''https://'' u)"
  by (auto simp: get_page_data_url add_protocol_def)

theorem url_field_is_normalized_witness:
  "url (fst (get_page_data (sample_library (ok_response 200) []) () ''example.com''))
     = ''https://example.com''"
  using url_field_is_normalized [of "sample_library (ok_response 200) []" "()" "''example.com''"]
  by (simp add: add_protocol_def)

text \<open>
  A failed fetch of \<open>example.com\<close>: the record's \<open>url\<close> is \<open>https://example.com\<close>, not
  the input.
\<close>

theorem url_field_on_failure_counterexample:
  "error (fst (get_page_data (sample_library failing_net []) () ''example.com''))
     = Some ''Connection timed out''
   \<and> url (fst (get_page_data (sample_library failing_net []) () ''example.com''))
     = ''https://example.com''
   \<and> url (fst (get_page_data (sample_library failing_net []) () ''example.com''))
     \<noteq> ''example.com''"
  by (simp add: sample_run_defs failing_net_def)

subsection \<open>C9: the length badge\<close>

text \<open>
  C9. For a non-empty content string \<open>format_meta_content\<close> renders the content, cut to
  100 characters, and a length badge whose class is \<open>tag-good\<close> exactly when the length
  lies in the band of the field (30 to 60 for \<open>title\<close>, 120 to 160 for any other field
  name) and \<open>tag-warning\<close> otherwise: 30 and 60 are good and 29 and 61 are warnings for
  a title, 120 and 160 are good and 119 and 161 are warnings for a description. When the
  content is absent or is the empty string it renders the missing-field marker.
\<close>

theorem format_meta_content_classification:
  "(c \<noteq> [] \<longrightarrow>
      format_meta_content (Some c) n field_name =
        take 100 c @ (if length c > 100 then ''...'' else [])
        @ length_badge (if field_name = ''title''
                        then (if 30 \<le> n \<and> n \<le> 60 then ''tag-good'' else ''tag-warning'')
                        else (if 120 \<le> n \<and> n \<le> 160 then ''tag-good'' else ''tag-warning'')) n)
   \<and> format_meta_content None n field_name = missing_marker field_name
   \<and> format_meta_content (Some []) n field_name = missing_marker field_name
   \<and> length_color ''title'' 30 = ''tag-good'' \<and> length_color ''title'' 60 = ''tag-good''
   \<and> length_color ''title'' 29 = ''tag-warning'' \<and> length_color ''title'' 61 = ''tag-warning''
   \<and> length_color ''description'' 120 = ''tag-good''
   \<and> length_color ''description'' 160 = ''tag-good''
   \<and> length_color ''description'' 119 = ''tag-warning''
   \<and> length_color ''description'' 161 = ''tag-warning''"
  by (simp add: format_meta_content_def length_color_def)

theorem format_meta_content_classification_witness:
  \<open>format_meta_content (Some ''Hello World Example Page Title Here'') 39 ''title''
     = ''Hello World Example Page Title Here <span class="tag-good">(39 chars)</span>''\<close>
proof -
  have "str_int 39 = ''39''"
    by code_simp
  with format_meta_content_classification
         [of "''Hello World Example Page Title Here''" 39 "''title''"]
  show ?thesis
    by (simp add: length_badge_def)
qed

text \<open>
  The empty string is a content string that is present, and it gets the marker and no
  badge.
\<close>

theorem format_meta_content_empty_counterexample:
  "format_meta_content (Some []) 0 ''title'' = missing_marker ''title''
   \<and> format_meta_content (Some []) 0 ''title''
       \<noteq> take 100 [] @ length_badge ''tag-warning'' 0
   \<and> format_meta_content (Some []) 0 ''title''
       \<noteq> take 100 [] @ length_badge ''tag-good'' 0"
  by (simp add: format_meta_content_def missing_marker_def length_badge_def)

subsection \<open>C10: a title of whitespace only\<close>



end
